theory Spec2Isabelle
  imports Main
begin

section \<open>Python values and text\<close>

text \<open>
  The configuration dictionary of \<open>QASystem\<close> holds values of several Python types. A float
  is carried as its \<open>repr\<close> (the shortest decimal text that reads back to it): the program
  only stores floats, passes them on and formats them, it never computes with them.
\<close>

datatype pyval = PyNone | PyBool bool | PyInt int | PyFloat string | PyStr string

datatype error =
    ValueError
  | AttributeError
  | KeyError
  | IndexError
  | NotReadyError
  | CollaboratorError string

text \<open>
  \<open>ValueError\<close>, \<open>AttributeError\<close>, \<open>KeyError\<close> and \<open>IndexError\<close> are what the
  interpreter raises on \<open>int(...)\<close>, on \<open>.split\<close> of a value that is no string, on a missing
  dictionary key and on an index out of range. \<open>CollaboratorError\<close> is any exception that a
  library call (PDF loader, splitter, vector store, chain) lets escape. \<open>NotReadyError\<close> is
  the error the specification names; no statement of the source raises it.
\<close>

fun truthy :: "pyval \<Rightarrow> bool" where
  "truthy PyNone = False"
| "truthy (PyBool b) = b"
| "truthy (PyInt i) = (i \<noteq> 0)"
| "truthy (PyFloat r) = (r \<noteq> ''0.0'' \<and> r \<noteq> ''-0.0'')"
| "truthy (PyStr s) = (s \<noteq> [])"

fun show_nat :: "nat \<Rightarrow> string" where
  "show_nat n =
     (if n < 10 then [char_of (48 + n)]
      else show_nat (n div 10) @ [char_of (48 + n mod 10)])"

declare show_nat.simps [simp del]

definition show_int :: "int \<Rightarrow> string" where
  "show_int i = (if i < 0 then CHR ''-'' # show_nat (nat (- i)) else show_nat (nat i))"

text \<open>What an f-string puts for \<open>{v}\<close>: \<open>str(v)\<close>.\<close>

fun py_str :: "pyval \<Rightarrow> string" where
  "py_str PyNone = ''None''"
| "py_str (PyBool b) = (if b then ''True'' else ''False'')"
| "py_str (PyInt i) = show_int i"
| "py_str (PyFloat r) = r"
| "py_str (PyStr s) = s"

subsection \<open>Characters\<close>

text \<open>
  A Python string is a sequence of code points. A \<open>char\<close> stands for the code point of the
  same number, so the texts of the model are those over the code points 0 to 255; the
  classes below are Python's on that range.
\<close>

definition cp :: "char \<Rightarrow> nat" where
  "cp c = of_char c"

definition is_digit :: "char \<Rightarrow> bool" where
  \<comment> \<open>\<open>\d\<close>, and the digits \<open>int\<close> reads\<close>
  "is_digit c = (48 \<le> cp c \<and> cp c \<le> 57)"

definition is_space :: "char \<Rightarrow> bool" where
  \<comment> \<open>the white space \<open>int\<close> strips: tab to carriage return, space, next line, no-break space\<close>
  "is_space c = ((9 \<le> cp c \<and> cp c \<le> 13) \<or> cp c = 32 \<or> cp c = 133 \<or> cp c = 160)"

definition is_word :: "char \<Rightarrow> bool" where
  \<comment> \<open>\<open>\w\<close>: alphanumeric code points and the underscore\<close>
  "is_word c =
     ((48 \<le> cp c \<and> cp c \<le> 57) \<or> (65 \<le> cp c \<and> cp c \<le> 90) \<or> cp c = 95 \<or>
      (97 \<le> cp c \<and> cp c \<le> 122) \<or>
      cp c \<in> {170, 178, 179, 181, 185, 186, 188, 189, 190} \<or>
      (192 \<le> cp c \<and> cp c \<le> 214) \<or> (216 \<le> cp c \<and> cp c \<le> 246) \<or> 248 \<le> cp c)"

definition lower_char :: "char \<Rightarrow> char" where
  "lower_char c =
     (if (65 \<le> cp c \<and> cp c \<le> 90) \<or> (192 \<le> cp c \<and> cp c \<le> 222 \<and> cp c \<noteq> 215)
      then char_of (cp c + 32) else c)"

definition lower :: "string \<Rightarrow> string" where
  \<comment> \<open>\<open>str.lower\<close>\<close>
  "lower s = map lower_char s"

definition is_ascii_letter :: "char \<Rightarrow> bool" where
  "is_ascii_letter c = ((65 \<le> cp c \<and> cp c \<le> 90) \<or> (97 \<le> cp c \<and> cp c \<le> 122))"

definition upper_ascii :: "char \<Rightarrow> char" where
  "upper_ascii c = (if 97 \<le> cp c \<and> cp c \<le> 122 then char_of (cp c - 32) else c)"

fun title_from :: "bool \<Rightarrow> string \<Rightarrow> string" where
  "title_from prev_cased [] = []"
| "title_from prev_cased (c # cs) =
     (if prev_cased then lower_char c else upper_ascii c) # title_from (is_ascii_letter c) cs"

definition title :: "string \<Rightarrow> string" where
  \<comment> \<open>\<open>str.title\<close> on texts whose letters are ASCII, as the names of the denylist are\<close>
  "title s = title_from False s"

subsection \<open>Splitting, substrings, reading integers\<close>

fun split_on :: "char \<Rightarrow> string \<Rightarrow> string list" where
  \<comment> \<open>\<open>s.split(sep)\<close> for a separator of one character\<close>
  "split_on sep [] = [[]]"
| "split_on sep (c # cs) =
     (let r = split_on sep cs
      in if c = sep then [] # r else (c # hd r) # tl r)"

definition index_last :: "'a list \<Rightarrow> error + 'a" where
  \<comment> \<open>\<open>xs[-1]\<close>\<close>
  "index_last xs = (case xs of [] \<Rightarrow> Inl IndexError | _ # _ \<Rightarrow> Inr (last xs))"

fun starts_with :: "string \<Rightarrow> string \<Rightarrow> bool" where
  "starts_with [] s = True"
| "starts_with (p # ps) [] = False"
| "starts_with (p # ps) (c # cs) = (p = c \<and> starts_with ps cs)"

fun contains :: "string \<Rightarrow> string \<Rightarrow> bool" where
  \<comment> \<open>\<open>sub in s\<close>\<close>
  "contains sub [] = (sub = [])"
| "contains sub (c # cs) = (starts_with sub (c # cs) \<or> contains sub cs)"

definition strip :: "string \<Rightarrow> string" where
  "strip s = rev (dropWhile is_space (rev (dropWhile is_space s)))"

fun digits_value :: "bool \<Rightarrow> nat \<Rightarrow> string \<Rightarrow> nat option" where
  \<comment> \<open>decimal digits, single underscores allowed between two digits\<close>
  "digits_value after_digit acc [] = (if after_digit then Some acc else None)"
| "digits_value after_digit acc (c # cs) =
     (if is_digit c then digits_value True (10 * acc + (cp c - 48)) cs
      else if c = CHR ''_'' \<and> after_digit then digits_value False acc cs
      else None)"

definition max_str_digits :: nat where
  \<comment> \<open>the interpreter's default limit on the digits of a decimal literal given to \<open>int\<close>\<close>
  "max_str_digits = 4300"

definition py_int :: "string \<Rightarrow> error + int" where
  \<comment> \<open>\<open>int(s)\<close> of a string: white space stripped, an optional sign, decimal digits,
      no more of them than the limit\<close>
  "py_int s =
     (let t = strip s;
          r = (case t of
                 [] \<Rightarrow> None
               | c # cs \<Rightarrow>
                   if c = CHR ''-'' then map_option (\<lambda>n. - int n) (digits_value False 0 cs)
                   else if c = CHR ''+'' then map_option int (digits_value False 0 cs)
                   else map_option int (digits_value False 0 t))
      in case r of
           None \<Rightarrow> Inl ValueError
         | Some i \<Rightarrow>
             if length (filter is_digit t) > max_str_digits then Inl ValueError else Inr i)"

subsection \<open>Regular expressions\<close>

text \<open>
  The patterns of the program are sequences of single-character items and of the word
  boundary \<open>\b\<close>; there is no alternation and no repetition other than \<open>\d{2}\<close>, which is
  written out. Such a pattern has at most one match at a position.
\<close>

datatype atom =
    Lit char
  | Rng char char
  | Cls string
  | Digit
  | WordB

definition lits :: "string \<Rightarrow> atom list" where
  "lits s = map Lit s"

fun accepts :: "atom \<Rightarrow> char \<Rightarrow> bool" where
  "accepts (Lit a) c = (c = a)"
| "accepts (Rng lo hi) c = (cp lo \<le> cp c \<and> cp c \<le> cp hi)"
| "accepts (Cls s) c = (c \<in> set s)"
| "accepts Digit c = is_digit c"
| "accepts WordB c = False"

definition word_before :: "char option \<Rightarrow> bool" where
  "word_before prev = (case prev of None \<Rightarrow> False | Some c \<Rightarrow> is_word c)"

definition word_after :: "string \<Rightarrow> bool" where
  "word_after s = (case s of [] \<Rightarrow> False | c # _ \<Rightarrow> is_word c)"

fun match_at :: "atom list \<Rightarrow> char option \<Rightarrow> string \<Rightarrow> string option" where
  \<comment> \<open>the text matched by the pattern at the start of \<open>s\<close>, \<open>prev\<close> the character before\<close>
  "match_at [] prev s = Some []"
| "match_at (WordB # as) prev s =
     (if word_before prev \<noteq> word_after s then match_at as prev s else None)"
| "match_at (a # as) prev [] = None"
| "match_at (a # as) prev (c # cs) =
     (if accepts a c then map_option (Cons c) (match_at as (Some c) cs) else None)"

fun search_from :: "atom list \<Rightarrow> char option \<Rightarrow> string \<Rightarrow> bool" where
  "search_from p prev [] = (match_at p prev [] \<noteq> None)"
| "search_from p prev (c # cs) = (match_at p prev (c # cs) \<noteq> None \<or> search_from p (Some c) cs)"

definition re_search :: "atom list \<Rightarrow> string \<Rightarrow> bool" where
  \<comment> \<open>whether \<open>re.search(p, s)\<close> finds a match\<close>
  "re_search p s = search_from p None s"

fun findall_from :: "atom list \<Rightarrow> char option \<Rightarrow> nat \<Rightarrow> string \<Rightarrow> string list" where
  \<comment> \<open>\<open>skip\<close> counts the characters still covered by the last match\<close>
  "findall_from p prev skip [] = []"
| "findall_from p prev (Suc k) (c # cs) = findall_from p (Some c) k cs"
| "findall_from p prev 0 (c # cs) =
     (case match_at p prev (c # cs) of
        None \<Rightarrow> findall_from p (Some c) 0 cs
      | Some m \<Rightarrow> m # findall_from p (Some c) (length m - 1) cs)"

definition findall :: "atom list \<Rightarrow> string \<Rightarrow> string list" where
  \<comment> \<open>\<open>re.findall(p, s)\<close> for a pattern whose one group is all it consumes and that
      matches no empty text: the matches from left to right, not overlapping\<close>
  "findall p s = findall_from p None 0 s"

section \<open>The document processor\<close>

datatype document = Document (page_content: string)

datatype vectorstore = FAISS (indexed: "document list")

record embeddings =
  embedding_model :: string
  embedding_api_key :: "string option"

record text_splitter =
  chunk_size :: nat
  chunk_overlap :: nat

record document_processor =
  embeddings :: embeddings
  text_splitter :: text_splitter

record chat_model =
  model :: pyval
  temperature :: pyval
  openai_api_key :: "string option"

record retriever =
  store :: vectorstore
  search_k :: pyval

record prompt =
  template :: string
  input_variables :: "string list"

record retrieval_qa =
  chain_llm :: chat_model
  chain_type :: string
  chain_retriever :: retriever
  chain_prompt :: prompt
  return_source_documents :: bool

text \<open>
  The libraries and services the program calls. Each call that reads a file or reaches a
  service may raise, and so may the library calls that build the prompt, the retriever and
  the chain from what the program gives them; what they return is not decided by the
  program. The constructors called in \<open>__init__\<close> (\<open>ChatOpenAI\<close>, \<open>OpenAIEmbeddings\<close>,
  \<open>RecursiveCharacterTextSplitter\<close>) are taken to record their arguments.
\<close>

record env =
  getenv :: "string \<Rightarrow> string option"
  pdf_load :: "string \<Rightarrow> error + document list"
  splitter_split :: "text_splitter \<Rightarrow> document list \<Rightarrow> error + document list"
  faiss_from_documents :: "document list \<Rightarrow> embeddings \<Rightarrow> error + vectorstore"
  prompt_template_new :: "string \<Rightarrow> string list \<Rightarrow> error + prompt"
  as_retriever :: "vectorstore \<Rightarrow> pyval \<Rightarrow> error + retriever"
  from_chain_type ::
    "chat_model \<Rightarrow> string \<Rightarrow> retriever \<Rightarrow> prompt \<Rightarrow> bool \<Rightarrow> error + retrieval_qa"
  chain_invoke :: "retrieval_qa \<Rightarrow> string \<Rightarrow> error + string \<times> document list"

text \<open>What a call prints and which collaborator it calls, in order.\<close>

datatype event =
    CallLoad string
  | CallSplit
  | CallEmbed
  | CallInvoke string
  | PrintLoaded nat
  | PrintCreated nat
  | PrintEmbeddingsCreated
  | PrintSettingUp
  | PrintCreatingEmbeddings
  | PrintReady
  | PrintWarningsHeader
  | PrintWarning string
  | PrintCoverage pyval
  | PrintQuestion string
  | PrintSearching
  | PrintAnswer string
  | PrintReminder pyval
  | PrintBasedOn nat

definition DocumentProcessor :: "env \<Rightarrow> document_processor" where
  "DocumentProcessor e =
     \<lparr> embeddings = \<lparr> embedding_model = ''text-embedding-3-small'',
                      embedding_api_key = getenv e ''OPENAI_API_KEY'' \<rparr>,
       text_splitter = \<lparr> chunk_size = 1000, chunk_overlap = 200 \<rparr> \<rparr>"

definition load_document ::
    "env \<Rightarrow> document_processor \<Rightarrow> string \<Rightarrow> (error + document list) \<times> event list" where
  "load_document e self pdf_path =
     (case pdf_load e pdf_path of
        Inl err \<Rightarrow> (Inl err, [CallLoad pdf_path])
      | Inr documents \<Rightarrow>
          (Inr documents, [CallLoad pdf_path, PrintLoaded (length documents)]))"

definition split_documents ::
    "env \<Rightarrow> document_processor \<Rightarrow> document list \<Rightarrow> (error + document list) \<times> event list" where
  "split_documents e self documents =
     (case splitter_split e (text_splitter self) documents of
        Inl err \<Rightarrow> (Inl err, [CallSplit])
      | Inr chunks \<Rightarrow> (Inr chunks, [CallSplit, PrintCreated (length chunks)]))"

definition create_embeddings ::
    "env \<Rightarrow> document_processor \<Rightarrow> document list \<Rightarrow> (error + vectorstore) \<times> event list" where
  "create_embeddings e self chunks =
     (case faiss_from_documents e chunks (embeddings self) of
        Inl err \<Rightarrow> (Inl err, [CallEmbed])
      | Inr vs \<Rightarrow> (Inr vs, [CallEmbed, PrintEmbeddingsCreated]))"

section \<open>The question-answering system\<close>

type_synonym config = "string \<rightharpoonup> pyval"

record qa_system =
  config :: config
  show_validation :: pyval
  verbose :: pyval
  data_year :: pyval
  processor :: document_processor
  llm :: chat_model
  vectorstore :: "vectorstore option"
  qa_chain :: "retrieval_qa option"

text \<open>
  A method of \<open>QASystem\<close> is a function of the object and the arguments that gives the
  value returned or the exception raised, the object after the call and what the call
  printed and called.
\<close>

type_synonym 'a outcome = "(error + 'a) \<times> qa_system \<times> event list"

definition default_config :: config where
  "default_config =
     [''show_validation'' \<mapsto> PyBool True,
      ''verbose'' \<mapsto> PyBool True,
      ''llm_model'' \<mapsto> PyStr ''gpt-3.5-turbo'',
      ''temperature'' \<mapsto> PyFloat ''0.1'',
      ''retrieval_k'' \<mapsto> PyInt 3,
      ''data_year'' \<mapsto> PyStr ''2019-20'']"

definition ChatOpenAI :: "pyval \<Rightarrow> pyval \<Rightarrow> string option \<Rightarrow> chat_model" where
  "ChatOpenAI m t k = \<lparr> model = m, temperature = t, openai_api_key = k \<rparr>"

text \<open>
  \<open>QASystem.__init__\<close>. The merged dictionary has every key of the defaults, so the
  subscripts cannot fail; \<open>the\<close> is applied to those keys only.
\<close>

definition init :: "env \<Rightarrow> config option \<Rightarrow> qa_system" where
  "init e cfg =
     (let merged = default_config ++ (case cfg of None \<Rightarrow> Map.empty | Some c \<Rightarrow> c)
      in \<lparr> config = merged,
           show_validation = the (merged ''show_validation''),
           verbose = the (merged ''verbose''),
           data_year = the (merged ''data_year''),
           processor = DocumentProcessor e,
           llm = ChatOpenAI (the (merged ''llm_model'')) (the (merged ''temperature''))
                   (getenv e ''OPENAI_API_KEY''),
           vectorstore = None,
           qa_chain = None \<rparr>)"

definition nl :: string where
  "nl = [CHR 0x0A]"

definition prompt_template :: "pyval \<Rightarrow> string" where
  "prompt_template dy =
     ''You are a Fantasy Premier League (FPL) expert assistant. '' @ nl @
     ''Use the following pieces of context to answer the question about player data, teams, positions, costs, and points.'' @ nl @
     nl @
     ''IMPORTANT: The data you have is from the '' @ py_str dy @ '' FPL season only. '' @ nl @
     ''If asked about other seasons or current data, clearly state that your information is limited to the '' @ py_str dy @ '' season.'' @ nl @
     nl @
     ''Context: {context}'' @ nl @
     nl @
     ''Question: {question}'' @ nl @
     nl @
     ''Please provide a helpful and accurate answer based on the FPL data provided. '' @ nl @
     ''If the question asks about data outside the '' @ py_str dy @ '' season, clearly state this limitation. '' @ nl @
     ''Include specific player names, costs, and points when relevant.'' @ nl @
     nl @
     ''Answer:''"

definition say :: "pyval \<Rightarrow> event \<Rightarrow> event list" where
  \<comment> \<open>\<open>if self.verbose: print(...)\<close>\<close>
  "say flag ev = (if truthy flag then [ev] else [])"

definition setup_document :: "env \<Rightarrow> qa_system \<Rightarrow> string \<Rightarrow> unit outcome" where
  "setup_document e self pdf_path =
     (let ev0 = say (verbose self) PrintSettingUp
      in case load_document e (processor self) pdf_path of
        (Inl err, ev1) \<Rightarrow> (Inl err, self, ev0 @ ev1)
      | (Inr documents, ev1) \<Rightarrow>
     (case split_documents e (processor self) documents of
        (Inl err, ev2) \<Rightarrow> (Inl err, self, ev0 @ ev1 @ ev2)
      | (Inr chunks, ev2) \<Rightarrow>
     (let ev3 = say (verbose self) PrintCreatingEmbeddings
      in case create_embeddings e (processor self) chunks of
        (Inl err, ev4) \<Rightarrow> (Inl err, self, ev0 @ ev1 @ ev2 @ ev3 @ ev4)
      | (Inr vs, ev4) \<Rightarrow>
     (let self1 = self\<lparr> vectorstore := Some vs \<rparr>;
          evs = ev0 @ ev1 @ ev2 @ ev3 @ ev4
      in case prompt_template_new e (prompt_template (data_year self1))
                [''context'', ''question''] of
        Inl err \<Rightarrow> (Inl err, self1, evs)
      | Inr PROMPT \<Rightarrow>
     (case config self1 ''retrieval_k'' of
        None \<Rightarrow> (Inl KeyError, self1, evs)
      | Some k \<Rightarrow>
     (case as_retriever e vs k of
        Inl err \<Rightarrow> (Inl err, self1, evs)
      | Inr retr \<Rightarrow>
     (case from_chain_type e (llm self1) ''stuff'' retr PROMPT True of
        Inl err \<Rightarrow> (Inl err, self1, evs)
      | Inr chain \<Rightarrow>
     (let self2 = self1\<lparr> qa_chain := Some chain \<rparr>
      in (Inr (), self2, evs @ say (verbose self2) PrintReady)))))))))"

subsection \<open>Scope validation\<close>

definition year_pattern :: "atom list" where
  \<comment> \<open>\<open>\b(20\d{2})\b\<close>\<close>
  "year_pattern = [WordB, Lit (CHR ''2''), Lit (CHR ''0''), Digit, Digit, WordB]"

definition recent_patterns :: "atom list list" where
  "recent_patterns =
     [lits ''202'' @ [Rng (CHR ''3'') (CHR ''9'')],
      lits ''2024'' @ [Cls ''/-''] @ lits ''202'' @ [Rng (CHR ''5'') (CHR ''9'')],
      lits ''current'',
      [WordB] @ lits ''now'' @ [WordB],
      [WordB] @ lits ''today'' @ [WordB],
      [WordB] @ lits ''latest'' @ [WordB],
      [WordB] @ lits ''recent'' @ [WordB],
      [WordB] @ lits ''this season'' @ [WordB]]"

definition modern_players :: "string list" where
  "modern_players = [''haaland'', ''nunez'', ''antony'', ''casemiro'', ''tchouameni'']"

definition year_warning :: "string \<Rightarrow> pyval \<Rightarrow> string" where
  "year_warning year dy =
     ''Question mentions '' @ year @ '', but our data is from '' @ py_str dy"

definition recent_warning :: "pyval \<Rightarrow> string" where
  "recent_warning dy =
     ''Question asks about current/recent data, but our dataset is from '' @ py_str dy"

definition player_warning :: "string \<Rightarrow> pyval \<Rightarrow> string" where
  "player_warning player dy =
     ''Question asks about '' @ title player @ '', who likely wasn't in the '' @ py_str dy @
     '' season''"

definition terminal_year :: "pyval \<Rightarrow> error + int" where
  \<comment> \<open>\<open>int(self.data_year.split("-")[-1])\<close>\<close>
  "terminal_year dy =
     (case dy of
        PyStr s \<Rightarrow>
          (case index_last (split_on (CHR ''-'') s) of
             Inl err \<Rightarrow> Inl err
           | Inr seg \<Rightarrow> py_int seg)
      | _ \<Rightarrow> Inl AttributeError)"

fun year_loop :: "pyval \<Rightarrow> string list \<Rightarrow> string list \<Rightarrow> error + string list" where
  "year_loop dy [] warnings = Inr warnings"
| "year_loop dy (year # years) warnings =
     (case py_int year of
        Inl err \<Rightarrow> Inl err
      | Inr y \<Rightarrow>
          (case terminal_year dy of
             Inl err \<Rightarrow> Inl err
           | Inr t \<Rightarrow>
               year_loop dy years
                 (if y > t then warnings @ [year_warning year dy] else warnings)))"

fun recent_loop :: "pyval \<Rightarrow> atom list list \<Rightarrow> string \<Rightarrow> string list \<Rightarrow> string list" where
  "recent_loop dy [] question warnings = warnings"
| "recent_loop dy (pattern # patterns) question warnings =
     (if re_search pattern (lower question) then warnings @ [recent_warning dy]
      else recent_loop dy patterns question warnings)"

fun player_loop :: "pyval \<Rightarrow> string list \<Rightarrow> string \<Rightarrow> string list \<Rightarrow> string list" where
  "player_loop dy [] question warnings = warnings"
| "player_loop dy (player # players) question warnings =
     player_loop dy players question
       (if contains player (lower question) then warnings @ [player_warning player dy]
        else warnings)"

definition validate_question :: "qa_system \<Rightarrow> string \<Rightarrow> string list outcome" where
  "validate_question self question =
     (let warnings = [];
          years = findall year_pattern question
      in case year_loop (data_year self) years warnings of
        Inl err \<Rightarrow> (Inl err, self, [])
      | Inr warnings \<Rightarrow>
          (let warnings = recent_loop (data_year self) recent_patterns question warnings;
               warnings = player_loop (data_year self) modern_players question warnings
           in (Inr warnings, self, [])))"

subsection \<open>Asking\<close>


subsection \<open>A collaborator for examples\<close>


subsection \<open>The warning list as the specification words it\<close>





section \<open>Properties\<close>

subsection \<open>Auxiliary facts\<close>










lemma validate_question_frame: "snd (validate_question self q) = (self, [])"
  by (simp add: validate_question_def Let_def split: sum.splits)










subsection \<open>Configuration\<close>

text \<open>
  C3. The claim: a value supplied under the configuration option \<open>model\<close> becomes the chat
  model of the pipeline. The constructor reads the key \<open>llm_model\<close>; a value under \<open>model\<close>,
  the key the web application passes, is merged into the dictionary and never read, so the
  chat model stays the default. Values under \<open>llm_model\<close> and \<open>temperature\<close> are used.
\<close>

theorem init_ignores_model_key:
  "model (llm (init e (Some [''model'' \<mapsto> PyStr ''gpt-4'']))) = PyStr ''gpt-3.5-turbo''
   \<and> model (llm (init e (Some [''llm_model'' \<mapsto> m]))) = m
   \<and> temperature (llm (init e (Some [''temperature'' \<mapsto> x]))) = x"
  by (simp add: init_def default_config_def ChatOpenAI_def)


subsection \<open>Setting up\<close>

text \<open>
  C10. \<open>setup_document\<close> leaves the configuration dictionary and the fields
  \<open>show_validation\<close>, \<open>verbose\<close>, \<open>data_year\<close>, \<open>llm\<close> and \<open>processor\<close> as they were,
  whatever the path, the pipeline and the collaborators do, and whether it returns or
  raises: only \<open>vectorstore\<close> and \<open>qa_chain\<close> can change.
\<close>

theorem setup_document_frame:
  "config (fst (snd (setup_document e self p))) = config self
   \<and> show_validation (fst (snd (setup_document e self p))) = show_validation self
   \<and> verbose (fst (snd (setup_document e self p))) = verbose self
   \<and> data_year (fst (snd (setup_document e self p))) = data_year self
   \<and> llm (fst (snd (setup_document e self p))) = llm self
   \<and> processor (fst (snd (setup_document e self p))) = processor self
   \<and> fst (snd (setup_document e self p)) =
       self\<lparr> vectorstore := vectorstore (fst (snd (setup_document e self p))),
             qa_chain := qa_chain (fst (snd (setup_document e self p))) \<rparr>"
  by (simp add: setup_document_def Let_def split: prod.splits sum.splits option.splits)

subsection \<open>Validating a question\<close>

text \<open>
  C2. The claim: no year warning for a year token that does not exceed the terminal year,
  2020 for the data year \<open>2019-20\<close>. The source compares with
  \<open>int(data_year.split("-")[-1])\<close>, which is 20 for \<open>2019-20\<close>, so the year 2019, inside
  the season, is warned about.
\<close>

theorem validate_question_warns_2019:
  "terminal_year (data_year (init e None)) = Inr 20
   \<and> fst (validate_question (init e None) ''Who scored the most points in 2019?'') =
       Inr [''Question mentions 2019, but our data is from 2019-20'']"
proof -
  have "terminal_year (PyStr ''2019-20'') = Inr 20"
    by code_simp
  moreover have "data_year (init e None) = PyStr ''2019-20''"
    by (simp add: init_def default_config_def)
  moreover have "fst (validate_question (init e None) ''Who scored the most points in 2019?'') =
       Inr [''Question mentions 2019, but our data is from 2019-20'']"
    by code_simp
  ultimately show ?thesis by simp
qed







text \<open>
  C7. A call of \<open>validate_question\<close> returns the object as it was and prints and calls
  nothing; its result is decided by the question and the field \<open>data_year\<close> alone, so a
  second call in a row, or a call after any change of the other fields, returns the same.
\<close>

theorem validate_question_pure:
  "snd (validate_question self q) = (self, [])
   \<and> validate_question (fst (snd (validate_question self q))) q = validate_question self q
   \<and> fst (validate_question
            (self\<lparr> config := c, show_validation := sv, verbose := vb, processor := pr,
                   llm := l, vectorstore := vs, qa_chain := ch \<rparr>) q) =
       fst (validate_question self q)"
  by (simp add: validate_question_def Let_def split: sum.splits)

subsection \<open>Asking a question\<close>







end
